theory Spec2Isabelle
  imports Main "HOL-Library.Word"
begin

section \<open>The document store as the driver presents it\<close>

text \<open>
  The explorer keeps its entities in MongoDB collections and reaches them through the Go
  driver. A driver call first encodes its documents as BSON and then makes a round trip to
  the server. The round trip fails, and then writes nothing, or the server executes the
  command. It fails because the deadline of the call's context has passed (\<open>Timeout\<close>),
  because the server cannot be reached (\<open>Unreachable\<close>), or because the server answers with
  an error of its own that is not about a unique key (\<open>ServerError\<close>).
  The outcome of the round trips of one storage call is an argument \<open>net\<close> of the model:
  \<open>net c = Some e\<close> says that the round trip to collection \<open>c\<close> fails with \<open>e\<close>. No function
  of \<^verbatim>\<open>smesher.go\<close> or \<^verbatim>\<open>search.go\<close> talks to the same collection twice in one call. Where
  several driver calls share one context, as in \<^verbatim>\<open>UpdateSmesher\<close>, a deadline that has passed
  for one call has passed for the calls after it.
\<close>

datatype collection =
  Accounts | Blocks | Transactions | Activations | Smeshers | Coinbases | Rewards | Layers

datatype round_trip_error = Timeout | Unreachable | ServerError

text \<open>
  An error of a driver call: the failed round trip, the duplicate key reported by the
  server (E11000), or the refusal of the BSON encoder to write a \<^verbatim>\<open>uint64\<close> above
  \<^verbatim>\<open>math.MaxInt64\<close> ("overflows int64"), which ends the call before anything is sent.
\<close>

datatype mongo_error = RoundTrip round_trip_error | DuplicateKey | Overflow

definition encodableUint64 :: "64 word \<Rightarrow> bool" where
  "encodableUint64 w = (unat w < 2 ^ 63)"

type_synonym net = "collection \<Rightarrow> round_trip_error option"

text \<open>
  The driver calls made so far, in order, whether or not they got as far as the server;
  \<open>Count\<close> and \<open>Find\<close> are reads.
\<close>

datatype call =
  Count collection | Find collection | Insert collection | Update collection
  | CreateIndex collection

fun is_read :: "call \<Rightarrow> bool" where
  "is_read (Count c) = True"
| "is_read (Find c) = True"
| "is_read (Insert c) = False"
| "is_read (Update c) = False"
| "is_read (CreateIndex c) = False"

text \<open>
  \<^verbatim>\<open>Collection.CountDocuments(ctx, query)\<close>: the number of documents that match,
  or the error of the round trip; beside an error the driver returns the count 0.
\<close>

definition CountDocuments ::
  "round_trip_error option \<Rightarrow> ('d \<Rightarrow> bool) \<Rightarrow> 'd list \<Rightarrow> mongo_error + int" where
  "CountDocuments t query docs =
     (case t of
        Some e \<Rightarrow> Inl (RoundTrip e)
      | None \<Rightarrow> Inr (int (length (filter query docs))))"

text \<open>
  \<^verbatim>\<open>Collection.InsertOne(ctx, doc)\<close> on a collection whose only unique index beside the
  generated \<^verbatim>\<open>_id\<close> is on the field read by \<open>key\<close>, present when \<open>unique\<close> holds. The document
  is encoded first (\<open>encodable\<close> says whether the encoder accepts it); then comes the round
  trip; the server refuses a second document with the same key, otherwise it appends.
\<close>

definition InsertOne ::
  "bool \<Rightarrow> round_trip_error option \<Rightarrow> bool \<Rightarrow> ('d \<Rightarrow> 'k) \<Rightarrow> 'd \<Rightarrow> 'd list
     \<Rightarrow> mongo_error + 'd list" where
  "InsertOne encodable t unique key doc docs =
     (if \<not> encodable then Inl Overflow
      else
        (case t of
           Some e \<Rightarrow> Inl (RoundTrip e)
         | None \<Rightarrow>
             if unique \<and> key doc \<in> key ` set docs then Inl DuplicateKey
             else Inr (docs @ [doc])))"

text \<open>
  \<^verbatim>\<open>Collection.UpdateOne(ctx, filter, {$set: ...})\<close> without the upsert option. The update
  document is encoded first (\<open>encodable\<close>); then comes the round trip; the first document
  that matches the filter is changed, and when none matches nothing is written and the
  call still succeeds.
\<close>

fun update_first :: "('d \<Rightarrow> bool) \<Rightarrow> ('d \<Rightarrow> 'd) \<Rightarrow> 'd list \<Rightarrow> 'd list" where
  "update_first query set_fields [] = []"
| "update_first query set_fields (d # ds) =
     (if query d then set_fields d # ds else d # update_first query set_fields ds)"

definition UpdateOne ::
  "bool \<Rightarrow> round_trip_error option \<Rightarrow> ('d \<Rightarrow> bool) \<Rightarrow> ('d \<Rightarrow> 'd) \<Rightarrow> 'd list
     \<Rightarrow> mongo_error + 'd list" where
  "UpdateOne encodable t query set_fields docs =
     (if \<not> encodable then Inl Overflow
      else
        (case t of
           Some e \<Rightarrow> Inl (RoundTrip e)
         | None \<Rightarrow> Inr (update_first query set_fields docs)))"

text \<open>
  \<^verbatim>\<open>Indexes().CreateOne\<close> with \<^verbatim>\<open>SetUnique(true)\<close>: the server builds the index unless two
  stored documents already share a key.
\<close>

definition CreateOne ::
  "round_trip_error option \<Rightarrow> ('d \<Rightarrow> 'k) \<Rightarrow> 'd list \<Rightarrow> mongo_error option" where
  "CreateOne t key docs =
     (case t of
        Some e \<Rightarrow> Some (RoundTrip e)
      | None \<Rightarrow> if distinct (map key docs) then None else Some DuplicateKey)"


section \<open>Documents and the storage handle\<close>

text \<open>
  \<^verbatim>\<open>model.Smesher\<close>, the Go struct handed to \<^verbatim>\<open>SaveSmesher\<close>. The two \<^verbatim>\<open>float64\<close>
  coordinates are carried as their 64 bits.
\<close>

record Smesher =
  Id' :: string
  Name :: string
  Lon :: "64 word"
  Lat :: "64 word"
  CommitmentSize :: "64 word"
  Coinbase :: string
  AtxCount :: "32 word"
  Timestamp :: "32 word"

text \<open>
  A document of \<^verbatim>\<open>smeshers\<close> with the keys \<^verbatim>\<open>id, name, lon, lat, cSize, coinbase,
  atxcount, timestamp\<close>. \<^verbatim>\<open>atxcount\<close> is a BSON integer: \<^verbatim>\<open>SaveSmesher\<close> stores a
  \<^verbatim>\<open>uint32\<close> there and \<^verbatim>\<open>UpdateSmesher\<close> the \<^verbatim>\<open>int64\<close> of \<^verbatim>\<open>CountDocuments\<close>.
\<close>

record smesher_doc =
  smesher_id :: string
  smesher_name :: string
  smesher_lon :: "64 word"
  smesher_lat :: "64 word"
  smesher_cSize :: "64 word"
  smesher_coinbase :: string
  smesher_atxcount :: int
  smesher_timestamp :: "32 word"

text \<open>A document of \<^verbatim>\<open>coinbases\<close>: keys \<^verbatim>\<open>address, smesher\<close>.\<close>

record coinbase_doc =
  coinbase_address :: string
  coinbase_smesher :: string

text \<open>A document of \<^verbatim>\<open>activations\<close>, with the two keys that are queried here.\<close>

record activation_doc =
  activation_id :: string
  activation_smesher :: string

type_synonym ObjectID = "8 word list"

text \<open>
  The contents of the database. Of \<^verbatim>\<open>accounts\<close>, \<^verbatim>\<open>blocks\<close>, \<^verbatim>\<open>transactions\<close>,
  \<^verbatim>\<open>rewards\<close> and \<^verbatim>\<open>layers\<close> only the key that the search queries is kept
  (\<^verbatim>\<open>address\<close>, \<^verbatim>\<open>id\<close>, \<^verbatim>\<open>id\<close>, \<^verbatim>\<open>_id\<close>, \<^verbatim>\<open>number\<close>). \<open>idIndex\<close> and \<open>addressIndex\<close> say
  whether the unique indexes of \<^verbatim>\<open>InitSmeshersStorage\<close> exist.
\<close>

record database =
  accounts :: "string list"
  blocks :: "string list"
  transactions :: "string list"
  activations :: "activation_doc list"
  smeshers :: "smesher_doc list"
  coinbases :: "coinbase_doc list"
  rewards :: "ObjectID list"
  layers :: "32 word list"
  idIndex :: bool
  addressIndex :: bool

text \<open>
  \<^verbatim>\<open>*Storage\<close>: the database behind the handle, \<^verbatim>\<open>NetworkInfo.EpochNumLayers\<close>, and the
  driver calls made through the handle.
\<close>

record Storage =
  db :: database
  EpochNumLayers :: "32 word"
  calls :: "call list"

definition called :: "call \<Rightarrow> Storage \<Rightarrow> Storage" where
  "called c s = s\<lparr>calls := calls s @ [c]\<rparr>"

text \<open>
  An \<^verbatim>\<open>error\<close> returned by the storage: a driver error as it is, or wrapped by
  \<^verbatim>\<open>fmt.Errorf("...: %w", err)\<close> with the message in front.
\<close>

datatype error = Raw mongo_error | Wrapped string mongo_error


section \<open>\<^verbatim>\<open>storage/smesher.go\<close>\<close>

definition InitSmeshersStorage :: "net \<Rightarrow> Storage \<Rightarrow> error option \<times> Storage" where
  "InitSmeshersStorage net s =
     (let s1 = called (CreateIndex Smeshers) s in
      case CreateOne (net Smeshers) smesher_id (smeshers (db s1)) of
        Some err \<Rightarrow> (Some (Wrapped ''error init `smeshers` collection'' err), s1)
      | None \<Rightarrow>
          (let s2 = called (CreateIndex Coinbases) (s1\<lparr>db := (db s1)\<lparr>idIndex := True\<rparr>\<rparr>) in
           (case CreateOne (net Coinbases) coinbase_address (coinbases (db s2)) of
              Some err \<Rightarrow> (Some (Wrapped ''error init `coinbases` collection'' err), s2)
            | None \<Rightarrow> (None, s2\<lparr>db := (db s2)\<lparr>addressIndex := True\<rparr>\<rparr>))))"

definition GetSmeshersCount :: "net \<Rightarrow> (smesher_doc \<Rightarrow> bool) \<Rightarrow> Storage \<Rightarrow> int \<times> Storage" where
  "GetSmeshersCount net query s =
     (let s' = called (Count Smeshers) s in
      case CountDocuments (net Smeshers) query (smeshers (db s)) of
        Inl err \<Rightarrow> (0, s')
      | Inr count \<Rightarrow> (count, s'))"

text \<open>
  Of the fields that \<^verbatim>\<open>SaveSmesher\<close> writes only \<^verbatim>\<open>cSize\<close>, a \<^verbatim>\<open>uint64\<close>, can be refused by
  the encoder.
\<close>

definition SaveSmesher :: "net \<Rightarrow> Smesher \<Rightarrow> Storage \<Rightarrow> error option \<times> Storage" where
  "SaveSmesher net in' s =
     (let s' = called (Insert Smeshers) s in
      case InsertOne (encodableUint64 (CommitmentSize in')) (net Smeshers) (idIndex (db s))
             smesher_id
             \<lparr>smesher_id = Id' in', smesher_name = Name in', smesher_lon = Lon in',
              smesher_lat = Lat in', smesher_cSize = CommitmentSize in',
              smesher_coinbase = Coinbase in', smesher_atxcount = uint (AtxCount in'),
              smesher_timestamp = Timestamp in'\<rparr>
             (smeshers (db s)) of
        Inl err \<Rightarrow> (Some (Wrapped ''error save smesher'' err), s')
      | Inr docs \<Rightarrow> (None, s'\<lparr>db := (db s')\<lparr>smeshers := docs\<rparr>\<rparr>))"

text \<open>
  The three driver calls of \<^verbatim>\<open>UpdateSmesher\<close> share the context made at its start: when the
  count has run into the deadline, so does the update (\<open>afterCount\<close>). The two strings of
  the \<^verbatim>\<open>coinbases\<close> document are always encoded; in the update \<^verbatim>\<open>cSize\<close> is a \<^verbatim>\<open>uint64\<close>.
\<close>

definition afterCount :: "net \<Rightarrow> round_trip_error option" where
  "afterCount net = (if net Activations = Some Timeout then Some Timeout else net Smeshers)"

definition UpdateSmesher ::
  "net \<Rightarrow> string \<Rightarrow> string \<Rightarrow> 64 word \<Rightarrow> 32 word \<Rightarrow> Storage \<Rightarrow> error option \<times> Storage" where
  "UpdateSmesher net smesher coinbase space timestamp s =
     (let s1 = called (Insert Coinbases) s in
      case InsertOne True (net Coinbases) (addressIndex (db s)) coinbase_address
             \<lparr>coinbase_address = coinbase, coinbase_smesher = smesher\<rparr>
             (coinbases (db s)) of
        Inl err \<Rightarrow> (Some (Wrapped ''error insert smesher into `coinbases`'' err), s1)
      | Inr cbs \<Rightarrow>
          (let s2 = called (Count Activations) (s1\<lparr>db := (db s1)\<lparr>coinbases := cbs\<rparr>\<rparr>);
              atxCount =
                (case CountDocuments (net Activations)
                        (\<lambda>a. activation_smesher a = smesher) (activations (db s2)) of
                   Inl err \<Rightarrow> 0
                 | Inr count \<Rightarrow> count);
              s3 = called (Update Smeshers) s2
           in (case UpdateOne (encodableUint64 space) (afterCount net)
                     (\<lambda>d. smesher_id d = smesher)
                     (\<lambda>d. d\<lparr>smesher_cSize := space, smesher_coinbase := coinbase,
                            smesher_atxcount := atxCount, smesher_timestamp := timestamp\<rparr>)
                     (smeshers (db s3)) of
                 Inl err \<Rightarrow> (Some (Raw err), s3)
               | Inr docs \<Rightarrow> (None, s3\<lparr>db := (db s3)\<lparr>smeshers := docs\<rparr>\<rparr>))))"


section \<open>Go library functions used by the search\<close>

text \<open>
  \<^verbatim>\<open>strconv.Atoi\<close> where \<^verbatim>\<open>int\<close> has 64 bits: an optional sign, then one or more decimal
  digits and nothing else; a value outside \<^verbatim>\<open>int64\<close> is a range error. \<open>None\<close> is
  \<^verbatim>\<open>err != nil\<close>.
\<close>

definition isDigit :: "char \<Rightarrow> bool" where
  "isDigit c = (48 \<le> (of_char c :: nat) \<and> (of_char c :: nat) \<le> 57)"

definition digitsValue :: "string \<Rightarrow> int" where
  "digitsValue ds = foldl (\<lambda>n ch. n * 10 + (int (of_char ch) - 48)) 0 ds"

definition Atoi :: "string \<Rightarrow> int option" where
  "Atoi s =
     (case s of
        [] \<Rightarrow> None
      | c # cs \<Rightarrow>
          (let ds = (if c = CHR ''-'' \<or> c = CHR ''+'' then cs else s) in
           if ds = [] \<or> \<not> list_all isDigit ds then None
           else
             (let n = (if c = CHR ''-'' then - digitsValue ds else digitsValue ds) in
              if n < - (2 ^ 63) \<or> 2 ^ 63 - 1 < n then None else Some n)))"

text \<open>\<^verbatim>\<open>fmt.Sprintf("%v", id)\<close> of an \<^verbatim>\<open>int\<close>: decimal digits, a minus sign when negative.\<close>

function formatUint :: "nat \<Rightarrow> string" where
  "formatUint n =
     (if n < 10 then [''0123456789'' ! n]
      else formatUint (n div 10) @ [''0123456789'' ! (n mod 10)])"
  by pat_completeness auto
termination
  by (relation "measure (\<lambda>n. n)") auto

declare formatUint.simps [simp del]

definition formatInt :: "int \<Rightarrow> string" where
  "formatInt i = (if i < 0 then CHR ''-'' # formatUint (nat (- i)) else formatUint (nat i))"

text \<open>
  \<^verbatim>\<open>primitive.ObjectIDFromHex\<close>: exactly 24 hexadecimal digits, of either case, decoded
  to 12 bytes.
\<close>

definition fromHexChar :: "char \<Rightarrow> nat option" where
  "fromHexChar c =
     (let n = (of_char c :: nat) in
      if 48 \<le> n \<and> n \<le> 57 then Some (n - 48)
      else if 97 \<le> n \<and> n \<le> 102 then Some (n - 87)
      else if 65 \<le> n \<and> n \<le> 70 then Some (n - 55)
      else None)"

fun hexDecode :: "string \<Rightarrow> 8 word list option" where
  "hexDecode [] = Some []"
| "hexDecode [c] = None"
| "hexDecode (a # b # cs) =
     (case (fromHexChar a, fromHexChar b) of
        (Some x, Some y) \<Rightarrow> map_option ((#) (word_of_nat (16 * x + y))) (hexDecode cs)
      | _ \<Rightarrow> None)"

definition ObjectIDFromHex :: "string \<Rightarrow> ObjectID option" where
  "ObjectIDFromHex s = (if length s \<noteq> 24 then None else hexDecode s)"


section \<open>Storage calls of the search whose source is not at hand\<close>

text \<open>
  Modelled from the spec: the count helpers of the other collections, \<^verbatim>\<open>GetAccountsCount\<close>,
  \<^verbatim>\<open>GetBlocksCount\<close>, \<^verbatim>\<open>GetTransactionsCount\<close>, \<^verbatim>\<open>GetActivationsCount\<close> and
  \<^verbatim>\<open>GetRewardsCount\<close> (the "per-collection count helpers", "pure read-only probes against
  EntityStore"). The search calls them as \<^verbatim>\<open>s.storage.GetXCount(s.ctx, &query) > 0\<close>: they
  return a bare count and no error, like \<^verbatim>\<open>GetSmeshersCount\<close> above. \<open>GetCount\<close> is the shape
  of \<^verbatim>\<open>GetSmeshersCount\<close> for any collection.
\<close>

definition GetCount ::
  "net \<Rightarrow> collection \<Rightarrow> ('d \<Rightarrow> bool) \<Rightarrow> 'd list \<Rightarrow> Storage \<Rightarrow> int \<times> Storage" where
  "GetCount net c query docs s =
     (let s' = called (Count c) s in
      case CountDocuments (net c) query docs of
        Inl err \<Rightarrow> (0, s')
      | Inr count \<Rightarrow> (count, s'))"

text \<open>Modelled from the spec: \<^verbatim>\<open>GetAccountsCount\<close>, the count on \<^verbatim>\<open>accounts\<close>.\<close>

definition GetAccountsCount :: "net \<Rightarrow> (string \<Rightarrow> bool) \<Rightarrow> Storage \<Rightarrow> int \<times> Storage" where
  "GetAccountsCount net query s = GetCount net Accounts query (accounts (db s)) s"

text \<open>Modelled from the spec: \<^verbatim>\<open>GetBlocksCount\<close>, the count on \<^verbatim>\<open>blocks\<close>.\<close>

definition GetBlocksCount :: "net \<Rightarrow> (string \<Rightarrow> bool) \<Rightarrow> Storage \<Rightarrow> int \<times> Storage" where
  "GetBlocksCount net query s = GetCount net Blocks query (blocks (db s)) s"

text \<open>Modelled from the spec: \<^verbatim>\<open>GetTransactionsCount\<close>, the count on \<^verbatim>\<open>transactions\<close>.\<close>

definition GetTransactionsCount :: "net \<Rightarrow> (string \<Rightarrow> bool) \<Rightarrow> Storage \<Rightarrow> int \<times> Storage" where
  "GetTransactionsCount net query s = GetCount net Transactions query (transactions (db s)) s"

text \<open>Modelled from the spec: \<^verbatim>\<open>GetActivationsCount\<close>, the count on \<^verbatim>\<open>activations\<close>.\<close>

definition GetActivationsCount ::
  "net \<Rightarrow> (activation_doc \<Rightarrow> bool) \<Rightarrow> Storage \<Rightarrow> int \<times> Storage" where
  "GetActivationsCount net query s = GetCount net Activations query (activations (db s)) s"

text \<open>Modelled from the spec: \<^verbatim>\<open>GetRewardsCount\<close>, the count on \<^verbatim>\<open>rewards\<close>.\<close>

definition GetRewardsCount :: "net \<Rightarrow> (ObjectID \<Rightarrow> bool) \<Rightarrow> Storage \<Rightarrow> int \<times> Storage" where
  "GetRewardsCount net query s = GetCount net Rewards query (rewards (db s)) s"

text \<open>
  Modelled from the spec: \<^verbatim>\<open>GetLastLayer\<close>, the read of the watermark ("the highest
  layer number fully ingested"), a \<^verbatim>\<open>uint32\<close> without an error beside it: the largest
  stored layer number, 0 when there is none or the read fails.
\<close>

definition GetLastLayer :: "net \<Rightarrow> Storage \<Rightarrow> 32 word \<times> Storage" where
  "GetLastLayer net s =
     (let s' = called (Find Layers) s in
      case net Layers of
        Some err \<Rightarrow> (0, s')
      | None \<Rightarrow> (fold max (layers (db s)) 0, s'))"


section \<open>\<^verbatim>\<open>api/httpserver/rest/search.go\<close>\<close>

text \<open>
  What the function that \<^verbatim>\<open>SearchHandler\<close> hands to \<^verbatim>\<open>s.process\<close> leaves behind: the
  three values it returns (\<^verbatim>\<open>Header\<close>, status, \<^verbatim>\<open>error\<close>) and the bytes written to \<^verbatim>\<open>buf\<close>.
\<close>

record reply =
  header :: "(string \<times> string) list option"
  status :: nat
  err :: "string option"
  buf :: string

datatype panic = DivideByZero

definition dquote :: string where
  "dquote = [CHR 0x22]"

text \<open>
  The reply after \<^verbatim>\<open>buf.WriteString(fmt.Sprintf("\"redirect\":\"<path>\""))\<close>, a
  \<^verbatim>\<open>break\<close> and the end of the function: \<^verbatim>\<open>{"redirect":"<path>"}\<close> with status 200.
\<close>

definition redirect :: "string \<Rightarrow> reply" where
  "redirect path =
     \<lparr>header = Some [(''Content-Type'', ''application/json'')], status = 200, err = None,
      buf = ''{'' @ dquote @ ''redirect'' @ dquote @ '':'' @ dquote @ path @ dquote @ ''}''\<rparr>"

text \<open>\<^verbatim>\<open>return nil, http.StatusNotFound, errors.New("Not found")\<close>, after the opening brace.\<close>

definition NotFound :: reply where
  "NotFound = \<lparr>header = None, status = 404, err = Some ''Not found'', buf = ''{''\<rparr>"

text \<open>
  The body of \<^verbatim>\<open>SearchHandler\<close>. \<^verbatim>\<open>uint32(id)\<close> is \<open>word_of_int id\<close>; the division of two
  \<^verbatim>\<open>uint32\<close> panics when the divisor is 0.
\<close>

definition SearchHandler :: "net \<Rightarrow> string \<Rightarrow> Storage \<Rightarrow> (panic + reply) \<times> Storage" where
  "SearchHandler net idStr s =
     (if length idStr = 42 then
        (case GetAccountsCount net (\<lambda>address. address = idStr) s of (n1, s1) \<Rightarrow>
           if n1 > 0 then (Inr (redirect (''/address/'' @ idStr)), s1)
           else
             (case GetBlocksCount net (\<lambda>id'. id' = idStr) s1 of (n2, s2) \<Rightarrow>
                if n2 > 0 then (Inr (redirect (''/blocks/'' @ idStr)), s2)
                else (Inr NotFound, s2)))
      else if length idStr = 66 then
        (case GetTransactionsCount net (\<lambda>id'. id' = idStr) s of (n1, s1) \<Rightarrow>
           if n1 > 0 then (Inr (redirect (''/txs/'' @ idStr)), s1)
           else
             (case GetActivationsCount net (\<lambda>a. activation_id a = idStr) s1 of (n2, s2) \<Rightarrow>
                if n2 > 0 then (Inr (redirect (''/atxs/'' @ idStr)), s2)
                else
                  (case GetSmeshersCount net (\<lambda>d. smesher_id d = idStr) s2 of (n3, s3) \<Rightarrow>
                     if n3 > 0 then (Inr (redirect (''/smeshers/'' @ idStr)), s3)
                     else (Inr NotFound, s3))))
      else
        (case (case ObjectIDFromHex idStr of
                 Some objId \<Rightarrow>
                   (case GetRewardsCount net (\<lambda>r. r = objId) s of (n, s1) \<Rightarrow> (n > 0, s1))
               | None \<Rightarrow> (False, s)) of
           (True, s1) \<Rightarrow> (Inr (redirect (''/rewards/'' @ idStr)), s1)
         | (False, s1) \<Rightarrow>
             (case Atoi idStr of
                None \<Rightarrow> (Inr NotFound, s1)
              | Some id' \<Rightarrow>
                  (case GetLastLayer net s1 of (layer, s2) \<Rightarrow>
                     if EpochNumLayers s2 = 0 then (Inl DivideByZero, s2)
                     else
                       (let epoch = layer div EpochNumLayers s2 in
                        if (word_of_int id' :: 32 word) > epoch then
                          (if (word_of_int id' :: 32 word) \<le> layer
                           then (Inr (redirect (''/layers/'' @ formatInt id')), s2)
                           else (Inr NotFound, s2))
                        else (Inr (redirect (''/epochs/'' @ formatInt id')), s2))))))"


section \<open>The restart loop of the collector's \<^verbatim>\<open>main\<close>\<close>

text \<open>
  \<^verbatim>\<open>for { if err := c.Run(); err != nil { fmt.Println(err); time.Sleep(5 * time.Second) } }\<close>.
  \<^verbatim>\<open>c.Run\<close> belongs to the collector and is an argument here: \<open>run i\<close> is what its call
  number \<open>i\<close> does. It returns \<^verbatim>\<open>nil\<close>, it returns an error, or it panics, and a panic in a
  goroutine ends the process, the only way out of a loop that has no \<^verbatim>\<open>break\<close> and no
  \<^verbatim>\<open>return\<close>. The loop is followed by what it does, collected in \<open>out\<close>: calls of \<^verbatim>\<open>c.Run\<close>,
  lines printed, sleeps in seconds. \<open>None\<close> is a loop that never ends.
\<close>

datatype 'e run_result = Returns "'e option" | Panics

datatype 'e event = CallRun | Println 'e | Sleep nat

definition afterRun :: "'e option \<Rightarrow> 'e event list" where
  "afterRun r = (case r of None \<Rightarrow> [] | Some e \<Rightarrow> [Println e, Sleep 5])"

partial_function (option) syncLoop ::
  "(nat \<Rightarrow> 'e run_result) \<Rightarrow> nat \<Rightarrow> 'e event list \<Rightarrow> 'e event list option" where
  "syncLoop run i out =
     (case run i of
        Panics \<Rightarrow> Some (out @ [CallRun])
      | Returns r \<Rightarrow> syncLoop run (Suc i) (out @ CallRun # afterRun r))"

section \<open>Stores and networks for the examples\<close>

text \<open>
  A network on which every round trip succeeds, and one on which the calls to one
  collection run into the deadline.
\<close>

definition up :: net where
  "up = (\<lambda>c. None)"

definition down :: "collection \<Rightarrow> net" where
  "down c = up(c := Some Timeout)"

text \<open>A network on which the server answers the calls to one collection with an error.\<close>

definition refusing :: "collection \<Rightarrow> net" where
  "refusing c = up(c := Some ServerError)"

definition emptyStorage :: "32 word \<Rightarrow> Storage" where
  "emptyStorage n =
     \<lparr>db = \<lparr>accounts = [], blocks = [], transactions = [], activations = [], smeshers = [],
            coinbases = [], rewards = [], layers = [], idIndex = False, addressIndex = False\<rparr>,
      EpochNumLayers = n, calls = []\<rparr>"

text \<open>The empty store after \<^verbatim>\<open>InitSmeshersStorage\<close>, with 10 layers per epoch.\<close>

definition initStorage :: Storage where
  "initStorage = snd (InitSmeshersStorage up (emptyStorage 10))"

definition smesherA :: Smesher where
  "smesherA = \<lparr>Id' = ''smesherA'', Name = ''A'', Lon = 0, Lat = 0, CommitmentSize = 0,
                Coinbase = '''', AtxCount = 0, Timestamp = 0\<rparr>"

text \<open>The initialised store holding the one smesher \<open>smesherA\<close>, and two of its activations.\<close>

definition savedStorage :: Storage where
  "savedStorage = snd (SaveSmesher up smesherA initStorage)"

definition atxStorage :: Storage where
  "atxStorage =
     savedStorage\<lparr>db := (db savedStorage)\<lparr>activations :=
       [\<lparr>activation_id = ''atx1'', activation_smesher = ''smesherA''\<rparr>,
        \<lparr>activation_id = ''atx2'', activation_smesher = ''smesherA''\<rparr>]\<rparr>\<rparr>"

text \<open>
  \<open>savedStorage\<close> after an \<^verbatim>\<open>UpdateSmesher\<close> whose insert went through and whose update of the
  record timed out.
\<close>

definition partialStorage :: Storage where
  "partialStorage = snd (UpdateSmesher (down Smeshers) ''smesherA'' ''cb1'' 1 2 savedStorage)"

lemmas example_defs =
  up_def down_def emptyStorage_def initStorage_def smesherA_def savedStorage_def

lemmas storage_defs =
  InitSmeshersStorage_def SaveSmesher_def UpdateSmesher_def GetSmeshersCount_def
  CountDocuments_def InsertOne_def UpdateOne_def CreateOne_def called_def
  encodableUint64_def afterCount_def

text \<open>
  A store for the search: the account of 42 letters \<open>a\<close>, the transaction of 66 letters \<open>b\<close>,
  the smesher of 66 letters \<open>d\<close>, one reward, watermark 100 and 10 layers per epoch.
\<close>

definition searchStorage :: Storage where
  "searchStorage =
     \<lparr>db = \<lparr>accounts = [replicate 42 CHR ''a''], blocks = [],
            transactions = [replicate 66 CHR ''b''], activations = [],
            smeshers = [\<lparr>smesher_id = replicate 66 CHR ''d'', smesher_name = ''D'',
                         smesher_lon = 0, smesher_lat = 0, smesher_cSize = 0,
                         smesher_coinbase = '''', smesher_atxcount = 0,
                         smesher_timestamp = 0\<rparr>],
            coinbases = [], rewards = [[1, 2, 3, 4, 5, 6, 7, 8, 9, 10, 11, 12]],
            layers = [100], idIndex = True, addressIndex = True\<rparr>,
      EpochNumLayers = 10, calls = []\<rparr>"


section \<open>What the probes of the search see\<close>

text \<open>
  A count probe sees a document when the round trip to the collection succeeds and a
  matching document is stored. The probe of \<^verbatim>\<open>rewards\<close> is made only for an identifier that
  parses as an object id.
\<close>

definition hit :: "net \<Rightarrow> collection \<Rightarrow> bool \<Rightarrow> bool" where
  "hit net c stored = (net c = None \<and> stored)"

definition rewardHit :: "net \<Rightarrow> string \<Rightarrow> Storage \<Rightarrow> bool" where
  "rewardHit net idStr s =
     (case ObjectIDFromHex idStr of
        None \<Rightarrow> False
      | Some objId \<Rightarrow> hit net Rewards (objId \<in> set (rewards (db s))))"


section \<open>Writes of \<^verbatim>\<open>storage/smesher.go\<close>\<close>




lemma UpdateSmesher_refused:
  assumes "net Coinbases \<noteq> None
           \<or> addressIndex (db s) \<and> coinbase \<in> coinbase_address ` set (coinbases (db s))"
  shows "UpdateSmesher net smesher coinbase space timestamp s =
           (Some (Wrapped ''error insert smesher into `coinbases`''
                    (case net Coinbases of None \<Rightarrow> DuplicateKey | Some e \<Rightarrow> RoundTrip e)),
            called (Insert Coinbases) s)"
  using assms by (auto simp: UpdateSmesher_def InsertOne_def Let_def split: option.split)

lemma UpdateSmesher_inserted:
  assumes "net Coinbases = None"
    and "\<not> (addressIndex (db s) \<and> coinbase \<in> coinbase_address ` set (coinbases (db s)))"
  shows "coinbases (db (snd (UpdateSmesher net smesher coinbase space timestamp s)))
           = coinbases (db s) @ [\<lparr>coinbase_address = coinbase, coinbase_smesher = smesher\<rparr>]"
    and "addressIndex (db (snd (UpdateSmesher net smesher coinbase space timestamp s)))
           = addressIndex (db s)"
    and "activations (db (snd (UpdateSmesher net smesher coinbase space timestamp s)))
           = activations (db s)"
    and "fst (UpdateSmesher net smesher coinbase space timestamp s)
           = (if \<not> unat space < 2 ^ 63 then Some (Raw Overflow)
              else map_option (\<lambda>e. Raw (RoundTrip e)) (afterCount net))"
    and "smeshers (db (snd (UpdateSmesher net smesher coinbase space timestamp s)))
           = (if unat space < 2 ^ 63 \<and> afterCount net = None
              then
                update_first (\<lambda>d. smesher_id d = smesher)
                  (\<lambda>d. d\<lparr>smesher_cSize := space, smesher_coinbase := coinbase,
                         smesher_atxcount :=
                           (case net Activations of
                              None \<Rightarrow> int (length (filter (\<lambda>a. activation_smesher a = smesher)
                                                     (activations (db s))))
                            | Some e \<Rightarrow> 0),
                         smesher_timestamp := timestamp\<rparr>)
                  (smeshers (db s))
              else smeshers (db s))"
  using assms
  by (auto simp: UpdateSmesher_def InsertOne_def UpdateOne_def CountDocuments_def called_def
        encodableUint64_def Let_def split: option.split)

lemma afterCount_None:
  "(afterCount net = None) = (net Activations \<noteq> Some Timeout \<and> net Smeshers = None)"
  by (simp add: afterCount_def)

lemma find_update_first:
  assumes "\<And>d. query d \<Longrightarrow> query (set_fields d)"
  shows "find query (update_first query set_fields ds) = map_option set_fields (find query ds)"
  using assms by (induction ds) simp_all

text \<open>
  C1, as the code has it. \<^verbatim>\<open>UpdateSmesher\<close> first inserts the \<^verbatim>\<open>coinbases\<close> entry and then
  updates the \<^verbatim>\<open>smeshers\<close> record, with no transaction around the two. On a store with the
  unique index on \<^verbatim>\<open>address\<close>:

  \<^item> when the insert is refused (the address is already indexed, or the round trip fails)
    the call returns the wrapped error and writes nothing;
  \<^item> when the insert goes through, the index entry is written. If then the update goes
    through as well (\<^verbatim>\<open>space\<close> is below \<open>2^63\<close>, the count has not run into the deadline and
    the round trip of the update succeeds), the call returns \<^verbatim>\<open>nil\<close> and both are written:
    the first record under the smesher id gets the coinbase, the size, the count and the
    timestamp; when there is no record under the id, nothing is written to \<^verbatim>\<open>smeshers\<close> and
    the call returns \<^verbatim>\<open>nil\<close> all the same. If the update does not go through, the call
    returns its error, the index entry stays written and \<^verbatim>\<open>smeshers\<close> is as before;
  \<^item> from then on every call for that coinbase is refused at the insert and writes
    nothing, so that repeating the call does not complete the pair.
\<close>

theorem UpdateSmesher_pair:
  assumes "addressIndex (db s)"
  shows "(net Coinbases \<noteq> None \<or> coinbase \<in> coinbase_address ` set (coinbases (db s)) \<longrightarrow>
            (\<exists>e. fst (UpdateSmesher net smesher coinbase space timestamp s)
                   = Some (Wrapped ''error insert smesher into `coinbases`'' e))
            \<and> db (snd (UpdateSmesher net smesher coinbase space timestamp s)) = db s)
       \<and> (net Coinbases = None \<and> coinbase \<notin> coinbase_address ` set (coinbases (db s)) \<longrightarrow>
            coinbases (db (snd (UpdateSmesher net smesher coinbase space timestamp s)))
              = coinbases (db s) @ [\<lparr>coinbase_address = coinbase, coinbase_smesher = smesher\<rparr>]
            \<and> (unat space < 2 ^ 63 \<and> net Activations \<noteq> Some Timeout \<and> net Smeshers = None \<longrightarrow>
                  fst (UpdateSmesher net smesher coinbase space timestamp s) = None
                  \<and> smeshers (db (snd (UpdateSmesher net smesher coinbase space timestamp s)))
                      = update_first (\<lambda>d. smesher_id d = smesher)
                          (\<lambda>d. d\<lparr>smesher_cSize := space, smesher_coinbase := coinbase,
                                 smesher_atxcount :=
                                   (case net Activations of
                                      None \<Rightarrow>
                                        int (length (filter (\<lambda>a. activation_smesher a = smesher)
                                                       (activations (db s))))
                                    | Some e \<Rightarrow> 0),
                                 smesher_timestamp := timestamp\<rparr>)
                          (smeshers (db s))
                  \<and> map_option (\<lambda>d. (smesher_coinbase d, smesher_cSize d, smesher_timestamp d))
                      (find (\<lambda>d. smesher_id d = smesher)
                         (smeshers (db (snd (UpdateSmesher net smesher coinbase space timestamp s)))))
                    = map_option (\<lambda>d. (coinbase, space, timestamp))
                        (find (\<lambda>d. smesher_id d = smesher) (smeshers (db s))))
            \<and> (\<not> (unat space < 2 ^ 63 \<and> net Activations \<noteq> Some Timeout \<and> net Smeshers = None)
                  \<longrightarrow>
                  (\<exists>e. fst (UpdateSmesher net smesher coinbase space timestamp s) = Some (Raw e))
                  \<and> smeshers (db (snd (UpdateSmesher net smesher coinbase space timestamp s)))
                      = smeshers (db s))
            \<and> (\<forall>net' smesher' space' timestamp'.
                  (\<exists>e. fst (UpdateSmesher net' smesher' coinbase space' timestamp'
                              (snd (UpdateSmesher net smesher coinbase space timestamp s)))
                         = Some (Wrapped ''error insert smesher into `coinbases`'' e))
                  \<and> db (snd (UpdateSmesher net' smesher' coinbase space' timestamp'
                              (snd (UpdateSmesher net smesher coinbase space timestamp s))))
                      = db (snd (UpdateSmesher net smesher coinbase space timestamp s))))"
proof (intro conjI impI)
  assume "net Coinbases \<noteq> None \<or> coinbase \<in> coinbase_address ` set (coinbases (db s))"
  with assms have r: "net Coinbases \<noteq> None
      \<or> addressIndex (db s) \<and> coinbase \<in> coinbase_address ` set (coinbases (db s))"
    by blast
  show "\<exists>e. fst (UpdateSmesher net smesher coinbase space timestamp s)
              = Some (Wrapped ''error insert smesher into `coinbases`'' e)"
    by (simp add: UpdateSmesher_refused [where net = net and s = s, OF r])
  show "db (snd (UpdateSmesher net smesher coinbase space timestamp s)) = db s"
    by (simp add: UpdateSmesher_refused [where net = net and s = s, OF r] called_def)
next
  assume a: "net Coinbases = None \<and> coinbase \<notin> coinbase_address ` set (coinbases (db s))"
  then have up: "net Coinbases = None"
    and fresh: "\<not> (addressIndex (db s) \<and> coinbase \<in> coinbase_address ` set (coinbases (db s)))"
    by simp_all
  note ins = UpdateSmesher_inserted [where net = net and s = s, OF up fresh,
      of smesher space timestamp]
  show "coinbases (db (snd (UpdateSmesher net smesher coinbase space timestamp s)))
          = coinbases (db s) @ [\<lparr>coinbase_address = coinbase, coinbase_smesher = smesher\<rparr>]"
    by (rule ins(1))
  {
    assume through: "unat space < 2 ^ 63 \<and> net Activations \<noteq> Some Timeout \<and> net Smeshers = None"
    then have ok: "unat space < 2 ^ 63" "afterCount net = None"
      by (simp_all add: afterCount_None)
    show "fst (UpdateSmesher net smesher coinbase space timestamp s) = None"
      using ok by (simp add: ins(4))
    show written: "smeshers (db (snd (UpdateSmesher net smesher coinbase space timestamp s)))
          = update_first (\<lambda>d. smesher_id d = smesher)
              (\<lambda>d. d\<lparr>smesher_cSize := space, smesher_coinbase := coinbase,
                     smesher_atxcount :=
                       (case net Activations of
                          None \<Rightarrow>
                            int (length (filter (\<lambda>a. activation_smesher a = smesher)
                                           (activations (db s))))
                        | Some e \<Rightarrow> 0),
                     smesher_timestamp := timestamp\<rparr>)
              (smeshers (db s))"
      using ok by (simp add: ins(5))
    show "map_option (\<lambda>d. (smesher_coinbase d, smesher_cSize d, smesher_timestamp d))
            (find (\<lambda>d. smesher_id d = smesher)
               (smeshers (db (snd (UpdateSmesher net smesher coinbase space timestamp s)))))
          = map_option (\<lambda>d. (coinbase, space, timestamp))
              (find (\<lambda>d. smesher_id d = smesher) (smeshers (db s)))"
      by (simp add: written find_update_first option.map_comp comp_def)
  }
  {
    assume stopped:
      "\<not> (unat space < 2 ^ 63 \<and> net Activations \<noteq> Some Timeout \<and> net Smeshers = None)"
    then have no: "\<not> (unat space < 2 ^ 63 \<and> afterCount net = None)"
      by (simp add: afterCount_None)
    show "\<exists>e. fst (UpdateSmesher net smesher coinbase space timestamp s) = Some (Raw e)"
      using no by (auto simp: ins(4))
    show "smeshers (db (snd (UpdateSmesher net smesher coinbase space timestamp s)))
          = smeshers (db s)"
      using no by (auto simp: ins(5))
  }
  show "\<forall>net' smesher' space' timestamp'.
          (\<exists>e. fst (UpdateSmesher net' smesher' coinbase space' timestamp'
                      (snd (UpdateSmesher net smesher coinbase space timestamp s)))
                 = Some (Wrapped ''error insert smesher into `coinbases`'' e))
          \<and> db (snd (UpdateSmesher net' smesher' coinbase space' timestamp'
                      (snd (UpdateSmesher net smesher coinbase space timestamp s))))
              = db (snd (UpdateSmesher net smesher coinbase space timestamp s))"
  proof (intro allI)
    fix net' :: net and smesher' :: string and space' :: "64 word" and timestamp' :: "32 word"
    have r: "net' Coinbases \<noteq> None
        \<or> addressIndex (db (snd (UpdateSmesher net smesher coinbase space timestamp s)))
          \<and> coinbase \<in> coinbase_address `
               set (coinbases (db (snd (UpdateSmesher net smesher coinbase space timestamp s))))"
      using assms by (simp add: ins(1,2))
    show "(\<exists>e. fst (UpdateSmesher net' smesher' coinbase space' timestamp'
                      (snd (UpdateSmesher net smesher coinbase space timestamp s)))
                 = Some (Wrapped ''error insert smesher into `coinbases`'' e))
          \<and> db (snd (UpdateSmesher net' smesher' coinbase space' timestamp'
                      (snd (UpdateSmesher net smesher coinbase space timestamp s))))
              = db (snd (UpdateSmesher net smesher coinbase space timestamp s))"
      by (simp add: UpdateSmesher_refused [where net = net' and coinbase = coinbase, OF r]
            called_def)
  qed
qed

theorem UpdateSmesher_pair_witness:
  "addressIndex (db savedStorage)
   \<and> fst (UpdateSmesher up ''smesherA'' ''cb1'' 1 2 savedStorage) = None
   \<and> coinbases (db (snd (UpdateSmesher up ''smesherA'' ''cb1'' 1 2 savedStorage)))
       = coinbases (db savedStorage)
         @ [\<lparr>coinbase_address = ''cb1'', coinbase_smesher = ''smesherA''\<rparr>]
   \<and> map_option (\<lambda>d. (smesher_coinbase d, smesher_cSize d, smesher_timestamp d))
       (find (\<lambda>d. smesher_id d = ''smesherA'')
          (smeshers (db (snd (UpdateSmesher up ''smesherA'' ''cb1'' 1 2 savedStorage)))))
     = Some (''cb1'', 1, 2)
   \<and> coinbases (db partialStorage)
       = coinbases (db savedStorage)
         @ [\<lparr>coinbase_address = ''cb1'', coinbase_smesher = ''smesherA''\<rparr>]
   \<and> (\<exists>e. fst (UpdateSmesher (down Smeshers) ''smesherA'' ''cb1'' 1 2 savedStorage)
              = Some (Raw e))
   \<and> smeshers (db partialStorage) = smeshers (db savedStorage)
   \<and> (\<exists>e. fst (UpdateSmesher up ''smesherA'' ''cb1'' 1 2 partialStorage)
              = Some (Wrapped ''error insert smesher into `coinbases`'' e))
   \<and> db (snd (UpdateSmesher up ''smesherA'' ''cb1'' 1 2 partialStorage)) = db partialStorage"
proof -
  have ix: "addressIndex (db savedStorage)"
    by (simp add: example_defs storage_defs Let_def)
  have ix': "addressIndex (db partialStorage)"
    by (simp add: partialStorage_def example_defs storage_defs Let_def)
  have fresh: "''cb1'' \<notin> coinbase_address ` set (coinbases (db savedStorage))"
    by (simp add: example_defs storage_defs Let_def)
  have there: "''cb1'' \<in> coinbase_address ` set (coinbases (db partialStorage))"
    by (simp add: partialStorage_def example_defs storage_defs Let_def)
  have before: "\<exists>d. find (\<lambda>d. smesher_id d = ''smesherA'') (smeshers (db savedStorage)) = Some d"
    by (simp add: example_defs storage_defs Let_def)
  have nets: "up Coinbases = None" "up Activations \<noteq> Some Timeout" "up Smeshers = None"
    "down Smeshers Coinbases = None" "down Smeshers Smeshers \<noteq> None"
    by (simp_all add: up_def down_def)
  have small: "unat (1 :: 64 word) < 2 ^ 63"
    by simp
  from before obtain d
    where d: "find (\<lambda>d. smesher_id d = ''smesherA'') (smeshers (db savedStorage)) = Some d"
    by blast
  have "fst (UpdateSmesher up ''smesherA'' ''cb1'' 1 2 savedStorage) = None
    \<and> coinbases (db (snd (UpdateSmesher up ''smesherA'' ''cb1'' 1 2 savedStorage)))
        = coinbases (db savedStorage)
          @ [\<lparr>coinbase_address = ''cb1'', coinbase_smesher = ''smesherA''\<rparr>]
    \<and> map_option (\<lambda>d. (smesher_coinbase d, smesher_cSize d, smesher_timestamp d))
        (find (\<lambda>d. smesher_id d = ''smesherA'')
           (smeshers (db (snd (UpdateSmesher up ''smesherA'' ''cb1'' 1 2 savedStorage)))))
      = map_option (\<lambda>d. (''cb1'', 1, 2))
          (find (\<lambda>d. smesher_id d = ''smesherA'') (smeshers (db savedStorage)))"
    using fresh nets small UpdateSmesher_pair [OF ix, of up "''cb1''" "''smesherA''" 1 2]
    by blast
  then have healthy: "fst (UpdateSmesher up ''smesherA'' ''cb1'' 1 2 savedStorage) = None
    \<and> coinbases (db (snd (UpdateSmesher up ''smesherA'' ''cb1'' 1 2 savedStorage)))
        = coinbases (db savedStorage)
          @ [\<lparr>coinbase_address = ''cb1'', coinbase_smesher = ''smesherA''\<rparr>]
    \<and> map_option (\<lambda>d. (smesher_coinbase d, smesher_cSize d, smesher_timestamp d))
        (find (\<lambda>d. smesher_id d = ''smesherA'')
           (smeshers (db (snd (UpdateSmesher up ''smesherA'' ''cb1'' 1 2 savedStorage)))))
      = Some (''cb1'', 1, 2)"
    by (simp add: d)
  have broken: "coinbases (db partialStorage)
        = coinbases (db savedStorage)
          @ [\<lparr>coinbase_address = ''cb1'', coinbase_smesher = ''smesherA''\<rparr>]
    \<and> (\<exists>e. fst (UpdateSmesher (down Smeshers) ''smesherA'' ''cb1'' 1 2 savedStorage)
               = Some (Raw e))
    \<and> smeshers (db partialStorage) = smeshers (db savedStorage)"
    using fresh nets
      UpdateSmesher_pair [OF ix, of "down Smeshers" "''cb1''" "''smesherA''" 1 2]
    by (simp add: partialStorage_def)
  have again: "(\<exists>e. fst (UpdateSmesher up ''smesherA'' ''cb1'' 1 2 partialStorage)
              = Some (Wrapped ''error insert smesher into `coinbases`'' e))
    \<and> db (snd (UpdateSmesher up ''smesherA'' ''cb1'' 1 2 partialStorage)) = db partialStorage"
    using there UpdateSmesher_pair [OF ix', of up "''cb1''" "''smesherA''" 1 2]
    by simp
  from ix healthy broken again show ?thesis
    by blast
qed

text \<open>
  C1 as the spec words it fails. On the store holding \<open>smesherA\<close>, an \<^verbatim>\<open>UpdateSmesher\<close> whose
  update of the record runs into the deadline returns that error with the index entry
  written and the record untouched; the same call repeated on a healthy network is refused
  with a duplicate key and changes nothing.
\<close>

theorem UpdateSmesher_retry_counterexample:
  "fst (UpdateSmesher (down Smeshers) ''smesherA'' ''cb1'' 1 2 savedStorage)
     = Some (Raw (RoundTrip Timeout))
   \<and> coinbases (db partialStorage)
       = [\<lparr>coinbase_address = ''cb1'', coinbase_smesher = ''smesherA''\<rparr>]
   \<and> map smesher_coinbase (smeshers (db partialStorage)) = ['''']
   \<and> fst (UpdateSmesher up ''smesherA'' ''cb1'' 1 2 partialStorage)
       = Some (Wrapped ''error insert smesher into `coinbases`'' DuplicateKey)
   \<and> db (snd (UpdateSmesher up ''smesherA'' ''cb1'' 1 2 partialStorage)) = db partialStorage"
  by (simp add: partialStorage_def example_defs storage_defs Let_def)

text \<open>
  C3, as the code has it. After a successful \<^verbatim>\<open>UpdateSmesher\<close> the activations are as before,
  and the record found under the smesher id, if there is one, has as \<^verbatim>\<open>atxcount\<close> the number of
  activations that refer to the smesher when the count query went through, and 0 when the
  count query failed (the error is logged and the update goes on with the zero value).
\<close>

theorem UpdateSmesher_atxcount:
  assumes "fst (UpdateSmesher net smesher coinbase space timestamp s) = None"
  shows "activations (db (snd (UpdateSmesher net smesher coinbase space timestamp s)))
           = activations (db s)
       \<and> map_option smesher_atxcount
           (find (\<lambda>d. smesher_id d = smesher)
              (smeshers (db (snd (UpdateSmesher net smesher coinbase space timestamp s)))))
         = map_option
             (\<lambda>d. case net Activations of
                     None \<Rightarrow> int (length (filter (\<lambda>a. activation_smesher a = smesher)
                                           (activations (db s))))
                   | Some e \<Rightarrow> 0)
             (find (\<lambda>d. smesher_id d = smesher) (smeshers (db s)))"
proof -
  have accepted: "\<not> (net Coinbases \<noteq> None
      \<or> addressIndex (db s) \<and> coinbase \<in> coinbase_address ` set (coinbases (db s)))"
  proof
    assume r: "net Coinbases \<noteq> None
      \<or> addressIndex (db s) \<and> coinbase \<in> coinbase_address ` set (coinbases (db s))"
    show False
      using assms by (simp add: UpdateSmesher_refused [where net = net and s = s, OF r])
  qed
  then have up: "net Coinbases = None"
    and fresh: "\<not> (addressIndex (db s) \<and> coinbase \<in> coinbase_address ` set (coinbases (db s)))"
    by simp_all
  note ins = UpdateSmesher_inserted [where net = net and s = s, OF up fresh,
      of smesher space timestamp]
  from assms have upd: "unat space < 2 ^ 63 \<and> afterCount net = None"
    by (simp add: ins(4) split: if_splits)
  show ?thesis
    using upd
    by (simp add: ins(3) ins(5) find_update_first option.map_comp comp_def
          split: option.split)
qed

theorem UpdateSmesher_atxcount_witness:
  "fst (UpdateSmesher up ''smesherA'' ''cb1'' 1 2 atxStorage) = None
   \<and> map_option smesher_atxcount
       (find (\<lambda>d. smesher_id d = ''smesherA'')
          (smeshers (db (snd (UpdateSmesher up ''smesherA'' ''cb1'' 1 2 atxStorage)))))
     = Some 2"
proof -
  have ok: "fst (UpdateSmesher up ''smesherA'' ''cb1'' 1 2 atxStorage) = None"
    by (simp add: atxStorage_def example_defs storage_defs Let_def)
  have before: "find (\<lambda>d. smesher_id d = ''smesherA'') (smeshers (db atxStorage)) \<noteq> None"
    by (simp add: atxStorage_def example_defs storage_defs Let_def)
  have atxs: "length (filter (\<lambda>a. activation_smesher a = ''smesherA'')
                 (activations (db atxStorage))) = 2"
    by (simp add: atxStorage_def example_defs storage_defs Let_def)
  show ?thesis
    using ok before atxs UpdateSmesher_atxcount [OF ok] by (auto simp: up_def)
qed

text \<open>
  C3 as the spec words it fails. \<open>atxStorage\<close> holds two activations of \<open>smesherA\<close>; an
  \<^verbatim>\<open>UpdateSmesher\<close> whose count query is answered with an error by the server succeeds and
  stores \<^verbatim>\<open>atxcount\<close> 0.
\<close>

theorem UpdateSmesher_atxcount_counterexample:
  "map activation_smesher (activations (db atxStorage)) = [''smesherA'', ''smesherA'']
   \<and> fst (UpdateSmesher (refusing Activations) ''smesherA'' ''cb1'' 1 2 atxStorage) = None
   \<and> map smesher_id
       (smeshers (db (snd (UpdateSmesher (refusing Activations) ''smesherA'' ''cb1'' 1 2
                            atxStorage))))
     = [''smesherA'']
   \<and> map smesher_atxcount
       (smeshers (db (snd (UpdateSmesher (refusing Activations) ''smesherA'' ''cb1'' 1 2
                            atxStorage))))
     = [0]"
  by (simp add: atxStorage_def refusing_def example_defs storage_defs Let_def)


section \<open>The search\<close>

lemma filter_nonempty: "(filter P xs \<noteq> []) = (\<exists>x\<in>set xs. P x)"
  by (simp add: filter_empty_conv)

lemma GetCount_eq:
  "GetCount net c query docs s =
     ((case net c of None \<Rightarrow> int (length (filter query docs)) | Some e \<Rightarrow> 0),
      called (Count c) s)"
  by (simp add: GetCount_def CountDocuments_def Let_def split: option.split)

lemma GetSmeshersCount_eq:
  "GetSmeshersCount net query s = GetCount net Smeshers query (smeshers (db s)) s"
  by (simp add: GetSmeshersCount_def GetCount_def)

lemmas probe_defs =
  GetAccountsCount_def GetBlocksCount_def GetTransactionsCount_def GetActivationsCount_def
  GetRewardsCount_def GetSmeshersCount_eq

lemma probe_if:
  "(case GetCount net c query docs s of (n, s1) \<Rightarrow> if n > 0 then A s1 else B s1)
   = (if hit net c (\<exists>d\<in>set docs. query d) then A (called (Count c) s)
      else B (called (Count c) s))"
  by (auto simp: GetCount_eq hit_def filter_nonempty split: option.split)

lemma stored_key: "(\<exists>d\<in>set docs. key d = k) = (k \<in> key ` set docs)"
  by auto

lemma SearchHandler_42:
  assumes "length idStr = 42"
  shows "SearchHandler net idStr s =
        (if hit net Accounts (idStr \<in> set (accounts (db s)))
         then (Inr (redirect (''/address/'' @ idStr)), s\<lparr>calls := calls s @ [Count Accounts]\<rparr>)
         else if hit net Blocks (idStr \<in> set (blocks (db s)))
         then (Inr (redirect (''/blocks/'' @ idStr)),
               s\<lparr>calls := calls s @ [Count Accounts, Count Blocks]\<rparr>)
         else (Inr NotFound, s\<lparr>calls := calls s @ [Count Accounts, Count Blocks]\<rparr>))"
  by (simp add: SearchHandler_def assms probe_defs probe_if called_def)

lemma SearchHandler_66:
  assumes "length idStr = 66"
  shows "SearchHandler net idStr s =
        (if hit net Transactions (idStr \<in> set (transactions (db s)))
         then (Inr (redirect (''/txs/'' @ idStr)), s\<lparr>calls := calls s @ [Count Transactions]\<rparr>)
         else if hit net Activations (idStr \<in> activation_id ` set (activations (db s)))
         then (Inr (redirect (''/atxs/'' @ idStr)),
               s\<lparr>calls := calls s @ [Count Transactions, Count Activations]\<rparr>)
         else if hit net Smeshers (idStr \<in> smesher_id ` set (smeshers (db s)))
         then (Inr (redirect (''/smeshers/'' @ idStr)),
               s\<lparr>calls := calls s @ [Count Transactions, Count Activations, Count Smeshers]\<rparr>)
         else (Inr NotFound,
               s\<lparr>calls := calls s @ [Count Transactions, Count Activations, Count Smeshers]\<rparr>))"
  by (simp add: SearchHandler_def assms probe_defs probe_if called_def stored_key)

lemma reward_probe:
  "(case ObjectIDFromHex idStr of
      Some objId \<Rightarrow>
        (case GetRewardsCount net (\<lambda>r. r = objId) s of (n, s1) \<Rightarrow> (n > 0, s1))
    | None \<Rightarrow> (False, s))
   = (rewardHit net idStr s,
      s\<lparr>calls := calls s @ (if ObjectIDFromHex idStr = None then [] else [Count Rewards])\<rparr>)"
  by (simp add: rewardHit_def hit_def probe_defs GetCount_eq called_def filter_nonempty
        split: option.split)

lemma lastLayer_case:
  "(case GetLastLayer net s of (layer, s2) \<Rightarrow> F layer s2)
   = F (fst (GetLastLayer net s)) (called (Find Layers) s)"
  by (simp add: GetLastLayer_def Let_def split: option.split)

lemma GetLastLayer_calls:
  "fst (GetLastLayer net (s\<lparr>calls := cs\<rparr>)) = fst (GetLastLayer net s)"
  by (simp add: GetLastLayer_def Let_def split: option.split)

lemma SearchHandler_other:
  assumes "length idStr \<noteq> 42" and "length idStr \<noteq> 66"
  shows "fst (SearchHandler net idStr s) =
     (if rewardHit net idStr s then Inr (redirect (''/rewards/'' @ idStr))
      else
        (case Atoi idStr of
           None \<Rightarrow> Inr NotFound
         | Some id' \<Rightarrow>
             if EpochNumLayers s = 0 then Inl DivideByZero
             else if fst (GetLastLayer net s) div EpochNumLayers s < word_of_int id'
             then (if word_of_int id' \<le> fst (GetLastLayer net s)
                   then Inr (redirect (''/layers/'' @ formatInt id'))
                   else Inr NotFound)
             else Inr (redirect (''/epochs/'' @ formatInt id'))))"
    and "snd (SearchHandler net idStr s) =
     s\<lparr>calls := calls s
          @ (if ObjectIDFromHex idStr = None then [] else [Count Rewards])
          @ (if rewardHit net idStr s \<or> Atoi idStr = None then [] else [Find Layers])\<rparr>"
proof -
  show "fst (SearchHandler net idStr s) =
     (if rewardHit net idStr s then Inr (redirect (''/rewards/'' @ idStr))
      else
        (case Atoi idStr of
           None \<Rightarrow> Inr NotFound
         | Some id' \<Rightarrow>
             if EpochNumLayers s = 0 then Inl DivideByZero
             else if fst (GetLastLayer net s) div EpochNumLayers s < word_of_int id'
             then (if word_of_int id' \<le> fst (GetLastLayer net s)
                   then Inr (redirect (''/layers/'' @ formatInt id'))
                   else Inr NotFound)
             else Inr (redirect (''/epochs/'' @ formatInt id'))))"
  proof (cases "Atoi idStr")
    case None
    then show ?thesis
      by (simp add: SearchHandler_def assms reward_probe split: bool.split)
  next
    case (Some id')
    then show ?thesis
      by (simp add: SearchHandler_def assms reward_probe lastLayer_case GetLastLayer_calls
            called_def Let_def split: bool.split)
  qed
  show "snd (SearchHandler net idStr s) =
     s\<lparr>calls := calls s
          @ (if ObjectIDFromHex idStr = None then [] else [Count Rewards])
          @ (if rewardHit net idStr s \<or> Atoi idStr = None then [] else [Find Layers])\<rparr>"
  proof (cases "Atoi idStr")
    case None
    then show ?thesis
      by (simp add: SearchHandler_def assms reward_probe split: bool.split)
  next
    case (Some id')
    then show ?thesis
      by (simp add: SearchHandler_def assms reward_probe lastLayer_case GetLastLayer_calls
            called_def Let_def split: bool.split)
  qed
qed

text \<open>
  C5. An identifier of length 42 is looked up in \<^verbatim>\<open>accounts\<close> and, only when that probe sees
  nothing, in \<^verbatim>\<open>blocks\<close>; one of length 66 in \<^verbatim>\<open>transactions\<close>, then \<^verbatim>\<open>activations\<close>, then
  \<^verbatim>\<open>smeshers\<close>. The first probe that sees a document decides the redirect and ends the
  probing; when none does the reply is 404. A probe sees a document when its round trip
  succeeds and the document is stored.
\<close>

theorem SearchHandler_by_length:
  "(length idStr = 42 \<longrightarrow>
      SearchHandler net idStr s =
        (if hit net Accounts (idStr \<in> set (accounts (db s)))
         then (Inr (redirect (''/address/'' @ idStr)), s\<lparr>calls := calls s @ [Count Accounts]\<rparr>)
         else if hit net Blocks (idStr \<in> set (blocks (db s)))
         then (Inr (redirect (''/blocks/'' @ idStr)),
               s\<lparr>calls := calls s @ [Count Accounts, Count Blocks]\<rparr>)
         else (Inr NotFound, s\<lparr>calls := calls s @ [Count Accounts, Count Blocks]\<rparr>)))
   \<and> (length idStr = 66 \<longrightarrow>
      SearchHandler net idStr s =
        (if hit net Transactions (idStr \<in> set (transactions (db s)))
         then (Inr (redirect (''/txs/'' @ idStr)), s\<lparr>calls := calls s @ [Count Transactions]\<rparr>)
         else if hit net Activations (idStr \<in> activation_id ` set (activations (db s)))
         then (Inr (redirect (''/atxs/'' @ idStr)),
               s\<lparr>calls := calls s @ [Count Transactions, Count Activations]\<rparr>)
         else if hit net Smeshers (idStr \<in> smesher_id ` set (smeshers (db s)))
         then (Inr (redirect (''/smeshers/'' @ idStr)),
               s\<lparr>calls := calls s @ [Count Transactions, Count Activations, Count Smeshers]\<rparr>)
         else (Inr NotFound,
               s\<lparr>calls := calls s @ [Count Transactions, Count Activations, Count Smeshers]\<rparr>)))"
  using SearchHandler_42 [of idStr net s] SearchHandler_66 [of idStr net s] by blast

theorem SearchHandler_by_length_witness:
  "length (replicate 42 CHR ''a'') = 42
   \<and> fst (SearchHandler up (replicate 42 CHR ''a'') searchStorage)
       = Inr (redirect (''/address/'' @ replicate 42 CHR ''a''))
   \<and> length (replicate 66 CHR ''b'') = 66
   \<and> fst (SearchHandler up (replicate 66 CHR ''b'') searchStorage)
       = Inr (redirect (''/txs/'' @ replicate 66 CHR ''b''))
   \<and> fst (SearchHandler up (replicate 66 CHR ''c'') searchStorage) = Inr NotFound"
  using SearchHandler_by_length [of "replicate 42 CHR ''a''" up searchStorage]
    SearchHandler_by_length [of "replicate 66 CHR ''b''" up searchStorage]
    SearchHandler_by_length [of "replicate 66 CHR ''c''" up searchStorage]
  by (simp add: hit_def up_def searchStorage_def)

lemma redirect_inject: "(redirect p = redirect q) = (p = q)"
  by (simp add: redirect_def)

lemma redirect_not_NotFound: "redirect p \<noteq> NotFound" "NotFound \<noteq> redirect p"
  by (simp_all add: redirect_def NotFound_def)

lemma uint32_compare:
  fixes layer n :: "32 word"
  shows "(layer div n < word_of_int k) = (uint layer div uint n < k mod 2 ^ 32)"
    and "(word_of_int k \<le> layer) = (k mod 2 ^ 32 \<le> uint layer)"
  by (simp_all add: word_less_def word_le_def uint_div uint_word_of_int_eq take_bit_eq_mod)

text \<open>
  C6. For an identifier whose length is neither 42 nor 66 the search first parses it as an
  object id and, when that succeeds, probes \<^verbatim>\<open>rewards\<close>; a reward seen there gives the redirect
  to \<^verbatim>\<open>/rewards/\<close> and ends the search. Otherwise the identifier goes to \<^verbatim>\<open>strconv.Atoi\<close>:
  when that fails the reply is 404, and when it succeeds the watermark is read and the
  reply is one of the outcomes of the classification of an integer.
\<close>

theorem SearchHandler_reward_then_integer:
  assumes "length idStr \<noteq> 42" and "length idStr \<noteq> 66"
  shows "(\<forall>objId. ObjectIDFromHex idStr = Some objId
                  \<and> hit net Rewards (objId \<in> set (rewards (db s))) \<longrightarrow>
            fst (SearchHandler net idStr s) = Inr (redirect (''/rewards/'' @ idStr)))
       \<and> (\<not> rewardHit net idStr s \<and> Atoi idStr = None \<longrightarrow>
            fst (SearchHandler net idStr s) = Inr NotFound)
       \<and> (\<forall>id'. \<not> rewardHit net idStr s \<and> Atoi idStr = Some id' \<longrightarrow>
            fst (SearchHandler net idStr s)
              \<in> {Inl DivideByZero, Inr NotFound,
                  Inr (redirect (''/layers/'' @ formatInt id')),
                  Inr (redirect (''/epochs/'' @ formatInt id'))})
       \<and> calls (snd (SearchHandler net idStr s))
           = calls s
             @ (if ObjectIDFromHex idStr = None then [] else [Count Rewards])
             @ (if rewardHit net idStr s \<or> Atoi idStr = None then [] else [Find Layers])"
proof (intro conjI allI impI)
  fix objId
  assume "ObjectIDFromHex idStr = Some objId
            \<and> hit net Rewards (objId \<in> set (rewards (db s)))"
  then have "rewardHit net idStr s"
    by (simp add: rewardHit_def)
  then show "fst (SearchHandler net idStr s) = Inr (redirect (''/rewards/'' @ idStr))"
    by (simp add: SearchHandler_other(1) [OF assms])
next
  assume "\<not> rewardHit net idStr s \<and> Atoi idStr = None"
  then show "fst (SearchHandler net idStr s) = Inr NotFound"
    by (simp add: SearchHandler_other(1) [OF assms])
next
  fix id'
  assume "\<not> rewardHit net idStr s \<and> Atoi idStr = Some id'"
  then show "fst (SearchHandler net idStr s)
              \<in> {Inl DivideByZero, Inr NotFound,
                  Inr (redirect (''/layers/'' @ formatInt id')),
                  Inr (redirect (''/epochs/'' @ formatInt id'))}"
    by (simp add: SearchHandler_other(1) [OF assms])
next
  show "calls (snd (SearchHandler net idStr s))
           = calls s
             @ (if ObjectIDFromHex idStr = None then [] else [Count Rewards])
             @ (if rewardHit net idStr s \<or> Atoi idStr = None then [] else [Find Layers])"
    by (simp add: SearchHandler_other(2) [OF assms])
qed

lemma ObjectIDFromHex_example:
  "ObjectIDFromHex ''0102030405060708090a0B0C'' = Some [1, 2, 3, 4, 5, 6, 7, 8, 9, 10, 11, 12]"
  by (simp add: ObjectIDFromHex_def fromHexChar_def)

theorem SearchHandler_reward_then_integer_witness:
  "length ''0102030405060708090a0B0C'' \<noteq> 42 \<and> length ''0102030405060708090a0B0C'' \<noteq> 66
   \<and> fst (SearchHandler up ''0102030405060708090a0B0C'' searchStorage)
       = Inr (redirect ''/rewards/0102030405060708090a0B0C'')
   \<and> \<not> rewardHit up ''layer7'' searchStorage \<and> Atoi ''layer7'' = None
   \<and> fst (SearchHandler up ''layer7'' searchStorage) = Inr NotFound
   \<and> calls (snd (SearchHandler up ''0102030405060708090a0B0C'' searchStorage)) = [Count Rewards]"
proof -
  have l1: "length ''0102030405060708090a0B0C'' \<noteq> 42"
    and l2: "length ''0102030405060708090a0B0C'' \<noteq> 66"
    and l3: "length ''layer7'' \<noteq> 42" and l4: "length ''layer7'' \<noteq> 66"
    by simp_all
  have stored: "hit up Rewards ([1, 2, 3, 4, 5, 6, 7, 8, 9, 10, 11, 12]
                  \<in> set (rewards (db searchStorage)))"
    by (simp add: hit_def up_def searchStorage_def)
  then have seen: "rewardHit up ''0102030405060708090a0B0C'' searchStorage"
    by (simp add: rewardHit_def ObjectIDFromHex_example)
  have unseen: "\<not> rewardHit up ''layer7'' searchStorage"
    by (simp add: rewardHit_def ObjectIDFromHex_def)
  have word: "Atoi ''layer7'' = None"
    by (simp add: Atoi_def isDigit_def)
  have empty: "calls searchStorage = []"
    by (simp add: searchStorage_def)
  show ?thesis
    using l1 l2 stored seen unseen word empty ObjectIDFromHex_example
      SearchHandler_reward_then_integer [OF l1 l2, of up searchStorage]
      SearchHandler_reward_then_integer [OF l3 l4, of up searchStorage]
    by simp
qed

lemma searchStorage_watermark:
  "fst (GetLastLayer up searchStorage) = 100" "EpochNumLayers searchStorage = 10"
  by (simp_all add: GetLastLayer_def up_def searchStorage_def Let_def)

lemma Atoi_examples:
  "Atoi ''42'' = Some 42" "Atoi ''5'' = Some 5" "Atoi ''999'' = Some 999"
  "Atoi ''-1'' = Some (- 1)" "Atoi ''4294967296'' = Some 4294967296"
  by (simp_all add: Atoi_def isDigit_def digitsValue_def)

lemma formatInt_examples:
  "formatInt 42 = ''42''" "formatInt 5 = ''5''" "formatInt 4294967296 = ''4294967296''"
  "formatInt (- 1) = ''-1''"
  by (simp_all add: formatInt_def formatUint.simps)

lemma uint_div_le: "uint (w :: 'a::len word) div k \<le> uint w"
proof (cases "uint w = 0")
  case True
  then show ?thesis by simp
next
  case False
  then have "0 < uint w"
    by (simp add: order_less_le)
  then show ?thesis
    by (rule int_div_le_self)
qed

lemma minus_one_uint32: "\<not> (- 1 :: 32 word) \<le> 100"
  by (simp add: word_le_def unsigned_minus_1_eq_mask mask_eq_exp_minus_1)

lemma not_object_id:
  "length idStr \<noteq> 24 \<Longrightarrow> ObjectIDFromHex idStr = None"
  "length idStr \<noteq> 24 \<Longrightarrow> \<not> rewardHit net idStr s"
  by (simp_all add: ObjectIDFromHex_def rewardHit_def)

text \<open>
  C4, for identifiers in the range of \<^verbatim>\<open>uint32\<close>. Let the identifier have a length other than
  42 and 66, be no object id, and parse as the integer \<open>id'\<close> with \<open>0 \<le> id' < 2^32\<close>; let
  \<^verbatim>\<open>EpochNumLayers\<close> be non-zero, the watermark be what \<^verbatim>\<open>GetLastLayer\<close> returns and the
  epoch the watermark divided by \<^verbatim>\<open>EpochNumLayers\<close>. Then the reply is the redirect to
  \<^verbatim>\<open>/layers/id'\<close> exactly when \<open>epoch < id' \<le> watermark\<close>, the redirect to \<^verbatim>\<open>/epochs/id'\<close>
  exactly when \<open>id' \<le> epoch\<close>, and 404 exactly when \<open>watermark < id'\<close>; the only call to
  the store is the read of the watermark.
\<close>

theorem SearchHandler_integer:
  assumes "length idStr \<noteq> 42" and "length idStr \<noteq> 66"
    and "ObjectIDFromHex idStr = None"
    and "Atoi idStr = Some id'"
    and "0 \<le> id'" and "id' < 2 ^ 32"
    and "EpochNumLayers s \<noteq> 0"
  shows "(fst (SearchHandler net idStr s) = Inr (redirect (''/layers/'' @ formatInt id'))
           \<longleftrightarrow> uint (fst (GetLastLayer net s)) div uint (EpochNumLayers s) < id'
               \<and> id' \<le> uint (fst (GetLastLayer net s)))
       \<and> (fst (SearchHandler net idStr s) = Inr (redirect (''/epochs/'' @ formatInt id'))
           \<longleftrightarrow> id' \<le> uint (fst (GetLastLayer net s)) div uint (EpochNumLayers s))
       \<and> (fst (SearchHandler net idStr s) = Inr NotFound
           \<longleftrightarrow> uint (fst (GetLastLayer net s)) < id')
       \<and> calls (snd (SearchHandler net idStr s)) = calls s @ [Find Layers]"
proof -
  have unseen: "\<not> rewardHit net idStr s"
    using assms(3) by (simp add: rewardHit_def)
  have small: "id' mod 2 ^ 32 = id'"
    using assms(5,6) by simp
  have "uint (fst (GetLastLayer net s)) div uint (EpochNumLayers s)
               \<le> uint (fst (GetLastLayer net s))"
    by (rule uint_div_le)
  then show ?thesis
    using unseen assms(3,4,7) small
    by (auto simp: SearchHandler_other [OF assms(1,2)] uint32_compare redirect_inject
          redirect_not_NotFound)
qed

theorem SearchHandler_integer_witness:
  "fst (SearchHandler up ''42'' searchStorage) = Inr (redirect ''/layers/42'')
   \<and> fst (SearchHandler up ''5'' searchStorage) = Inr (redirect ''/epochs/5'')
   \<and> fst (SearchHandler up ''999'' searchStorage) = Inr NotFound"
  using
    SearchHandler_integer [of "''42''" 42 searchStorage up]
    SearchHandler_integer [of "''5''" 5 searchStorage up]
    SearchHandler_integer [of "''999''" 999 searchStorage up]
  by (simp add: not_object_id Atoi_examples formatInt_examples searchStorage_watermark)

text \<open>
  C4 as the spec words it fails on an identifier outside that range. \<^verbatim>\<open>"-1"\<close> parses as
  \<open>-1\<close>, which is below the epoch 10 of the watermark 100, and the reply is 404, not a
  redirect to \<^verbatim>\<open>/epochs/-1\<close>.
\<close>

theorem SearchHandler_integer_counterexample:
  "length ''-1'' \<noteq> 42 \<and> length ''-1'' \<noteq> 66 \<and> ObjectIDFromHex ''-1'' = None
   \<and> Atoi ''-1'' = Some (- 1)
   \<and> uint (fst (GetLastLayer up searchStorage)) = 100
   \<and> uint (fst (GetLastLayer up searchStorage)) div uint (EpochNumLayers searchStorage) = 10
   \<and> fst (SearchHandler up ''-1'' searchStorage) = Inr NotFound
   \<and> fst (SearchHandler up ''-1'' searchStorage) \<noteq> Inr (redirect (''/epochs/'' @ formatInt (- 1)))"
  by (simp add: SearchHandler_other not_object_id Atoi_examples searchStorage_watermark
        minus_one_uint32 redirect_not_NotFound)

text \<open>
  C10. When an identifier reaches the classification of integers (its length is neither
  42 nor 66, no reward was seen for it, and it parses as \<open>id'\<close>), the division panics if
  \<^verbatim>\<open>EpochNumLayers\<close> is 0, and otherwise what is compared with the epoch and the watermark is
  \<open>id' mod 2^32\<close>, while the redirect is written with \<open>id'\<close> itself.
\<close>

theorem SearchHandler_uint32:
  assumes "length idStr \<noteq> 42" and "length idStr \<noteq> 66"
    and "\<not> rewardHit net idStr s"
    and "Atoi idStr = Some id'"
  shows "fst (SearchHandler net idStr s) =
     (if EpochNumLayers s = 0 then Inl DivideByZero
      else if uint (fst (GetLastLayer net s)) div uint (EpochNumLayers s) < id' mod 2 ^ 32
      then (if id' mod 2 ^ 32 \<le> uint (fst (GetLastLayer net s))
            then Inr (redirect (''/layers/'' @ formatInt id'))
            else Inr NotFound)
      else Inr (redirect (''/epochs/'' @ formatInt id')))"
  using assms(3,4) by (simp add: SearchHandler_other [OF assms(1,2)] uint32_compare)

theorem SearchHandler_uint32_witness:
  "\<not> rewardHit up ''4294967296'' searchStorage
   \<and> Atoi ''4294967296'' = Some 4294967296
   \<and> fst (SearchHandler up ''4294967296'' searchStorage) = Inr (redirect ''/epochs/4294967296'')
   \<and> \<not> rewardHit up ''-1'' searchStorage
   \<and> Atoi ''-1'' = Some (- 1)
   \<and> fst (SearchHandler up ''-1'' searchStorage) = Inr NotFound"
  using
    SearchHandler_uint32 [of "''4294967296''" up searchStorage 4294967296]
    SearchHandler_uint32 [of "''-1''" up searchStorage "- 1"]
  by (simp add: not_object_id Atoi_examples formatInt_examples searchStorage_watermark)

lemma hit_other_collection:
  "c \<noteq> c' \<Longrightarrow> hit (net(c' := t)) c stored = hit net c stored"
  by (simp add: hit_def)

lemma rewardHit_frame:
  "rewardHit (net(Smeshers := t)) idStr (s\<lparr>db := (db s)\<lparr>smeshers := docs\<rparr>\<rparr>)
     = rewardHit net idStr s"
  by (simp add: rewardHit_def hit_def split: option.split)

lemma GetLastLayer_frame:
  "fst (GetLastLayer (net(Smeshers := t)) (s\<lparr>db := (db s)\<lparr>smeshers := docs\<rparr>\<rparr>))
     = fst (GetLastLayer net s)"
  by (simp add: GetLastLayer_def Let_def split: option.split)

text \<open>
  C7, as the code has it. When the round trip of the count on \<^verbatim>\<open>smeshers\<close> fails,
  \<^verbatim>\<open>GetSmeshersCount\<close> logs the error and returns 0, and the search replies exactly as it
  would on a store without any smesher that it could reach: for an identifier of length 66
  that is no transaction and no activation this is the 404 of an unknown identifier.
\<close>

theorem smesher_probe_error_is_a_miss:
  assumes "net Smeshers \<noteq> None"
  shows "fst (GetSmeshersCount net query s) = 0
       \<and> fst (SearchHandler net idStr s)
           = fst (SearchHandler (net(Smeshers := None)) idStr
                    (s\<lparr>db := (db s)\<lparr>smeshers := []\<rparr>\<rparr>))"
proof
  show "fst (GetSmeshersCount net query s) = 0"
    using assms by (auto simp: GetSmeshersCount_eq GetCount_eq)
  consider "length idStr = 42" | "length idStr = 66"
    | "length idStr \<noteq> 42" "length idStr \<noteq> 66"
    by blast
  then show "fst (SearchHandler net idStr s)
           = fst (SearchHandler (net(Smeshers := None)) idStr
                    (s\<lparr>db := (db s)\<lparr>smeshers := []\<rparr>\<rparr>))"
  proof cases
    case 1
    then show ?thesis
      by (simp add: SearchHandler_42 hit_other_collection)
  next
    case 2
    have "\<not> hit net Smeshers stored" for stored
      using assms by (simp add: hit_def)
    moreover have "\<not> hit net' Smeshers (idStr \<in> smesher_id ` set [])" for net'
      by (simp add: hit_def)
    ultimately show ?thesis
      using 2 by (simp add: SearchHandler_66 hit_other_collection)
  next
    case 3
    then show ?thesis
      by (simp add: SearchHandler_other(1) rewardHit_frame GetLastLayer_frame
            split: option.split)
  qed
qed

theorem smesher_probe_error_is_a_miss_witness:
  "down Smeshers Smeshers \<noteq> None
   \<and> fst (GetSmeshersCount (down Smeshers) (\<lambda>d. smesher_id d = replicate 66 CHR ''d'')
            searchStorage) = 0
   \<and> fst (SearchHandler (down Smeshers) (replicate 66 CHR ''d'') searchStorage)
       = fst (SearchHandler ((down Smeshers)(Smeshers := None)) (replicate 66 CHR ''d'')
                (searchStorage\<lparr>db := (db searchStorage)\<lparr>smeshers := []\<rparr>\<rparr>))"
proof -
  have failing: "down Smeshers Smeshers \<noteq> None"
    by (simp add: down_def)
  show ?thesis
    using failing smesher_probe_error_is_a_miss [where net = "down Smeshers", OF failing]
    by simp
qed

text \<open>
  C7 as the spec words it fails. \<open>searchStorage\<close> holds the smesher of 66 letters \<open>d\<close> and
  the search finds it on a healthy network; when the count on \<^verbatim>\<open>smeshers\<close> times out the
  search replies 404, as for a smesher that does not exist.
\<close>

theorem smesher_probe_error_counterexample:
  "replicate 66 CHR ''d'' \<in> smesher_id ` set (smeshers (db searchStorage))
   \<and> fst (SearchHandler up (replicate 66 CHR ''d'') searchStorage)
       = Inr (redirect (''/smeshers/'' @ replicate 66 CHR ''d''))
   \<and> fst (SearchHandler (down Smeshers) (replicate 66 CHR ''d'') searchStorage) = Inr NotFound"
  by (simp add: SearchHandler_66 hit_def up_def down_def searchStorage_def)

text \<open>
  C8. A call of the search leaves the database and \<^verbatim>\<open>EpochNumLayers\<close> as they were, and every
  driver call it adds is a read: a count or the read of the watermark.
\<close>

theorem SearchHandler_read_only:
  "db (snd (SearchHandler net idStr s)) = db s
   \<and> EpochNumLayers (snd (SearchHandler net idStr s)) = EpochNumLayers s
   \<and> (\<exists>cs. calls (snd (SearchHandler net idStr s)) = calls s @ cs \<and> list_all is_read cs)"
proof -
  consider "length idStr = 42" | "length idStr = 66"
    | "length idStr \<noteq> 42" "length idStr \<noteq> 66"
    by blast
  then show ?thesis
  proof cases
    case 1
    then show ?thesis
      by (simp add: SearchHandler_42)
  next
    case 2
    then show ?thesis
      by (simp add: SearchHandler_66)
  next
    case 3
    then show ?thesis
      by (simp add: SearchHandler_other(2))
  qed
qed

section \<open>The restart loop\<close>

lemma syncLoop_returns_only_on_panic:
  assumes "syncLoop run i out = Some y"
  shows "\<exists>j\<ge>i. run j = Panics"
proof (rule syncLoop.raw_induct [where P = "\<lambda>run i out y. \<exists>j\<ge>i. run j = Panics", OF _ assms],
    goal_cases)
  case (1 loop run i out y)
  show ?case
  proof (cases "run i")
    case Panics
    then show ?thesis by blast
  next
    case (Returns r)
    with 1(2) have "loop run (Suc i) (out @ CallRun # afterRun r) = Some y"
      by simp
    then obtain j where "Suc i \<le> j" and "run j = Panics"
      using 1(1) by blast
    then show ?thesis
      by (metis Suc_leD)
  qed
qed

lemma syncLoop_until_panic:
  assumes "\<forall>j<k. run (i + j) \<noteq> Panics" and "run (i + k) = Panics"
  shows "syncLoop run i out =
           Some (out
                 @ concat (map (\<lambda>j. case run j of
                                       Returns None \<Rightarrow> [CallRun]
                                     | Returns (Some e) \<Rightarrow> [CallRun, Println e, Sleep 5]
                                     | Panics \<Rightarrow> [CallRun]) [i..<i + k])
                 @ [CallRun])"
  using assms
proof (induction k arbitrary: i out)
  case 0
  then show ?case
    by (subst syncLoop.simps) simp
next
  case (Suc k)
  from Suc.prems(1) have "run (i + 0) \<noteq> Panics"
    by blast
  then obtain r where r: "run i = Returns r"
    by (cases "run i") simp_all
  have rest: "\<forall>j<k. run (Suc i + j) \<noteq> Panics"
    using Suc.prems(1) by (metis Suc_less_eq add_Suc_shift)
  have stop: "run (Suc i + k) = Panics"
    using Suc.prems(2) by simp
  have "syncLoop run i out = syncLoop run (Suc i) (out @ CallRun # afterRun r)"
    by (subst syncLoop.simps) (simp add: r)
  also note Suc.IH [OF rest stop]
  finally show ?case
    by (simp add: r upt_rec [of i] afterRun_def split: option.split)
qed

text \<open>
  C9. Whatever the calls of \<^verbatim>\<open>c.Run\<close> return, errors or \<^verbatim>\<open>nil\<close>, in whatever order, the loop
  never ends: it has no result. What it does on the way is shown by cutting it off with a
  panic of the call number \<open>i + k\<close>: until then every call that returned an error was
  followed by the printing of that error, a sleep of 5 seconds and the next call of
  \<^verbatim>\<open>c.Run\<close>, the same for every error, and every call that returned \<^verbatim>\<open>nil\<close> by the next call
  at once.
\<close>

theorem syncLoop_restarts_forever:
  "((\<forall>j\<ge>i. run j \<noteq> Panics) \<longrightarrow> syncLoop run i out = None)
   \<and> ((\<forall>j<k. run (i + j) \<noteq> Panics) \<and> run (i + k) = Panics \<longrightarrow>
        syncLoop run i out =
          Some (out
                @ concat (map (\<lambda>j. case run j of
                                      Returns None \<Rightarrow> [CallRun]
                                    | Returns (Some e) \<Rightarrow> [CallRun, Println e, Sleep 5]
                                    | Panics \<Rightarrow> [CallRun]) [i..<i + k])
                @ [CallRun]))"
proof (intro conjI impI)
  assume alive: "\<forall>j\<ge>i. run j \<noteq> Panics"
  show "syncLoop run i out = None"
  proof (cases "syncLoop run i out")
    case None
    then show ?thesis .
  next
    case (Some y)
    then have "\<exists>j\<ge>i. run j = Panics"
      by (rule syncLoop_returns_only_on_panic)
    with alive show ?thesis
      by blast
  qed
next
  assume "(\<forall>j<k. run (i + j) \<noteq> Panics) \<and> run (i + k) = Panics"
  then show "syncLoop run i out =
          Some (out
                @ concat (map (\<lambda>j. case run j of
                                      Returns None \<Rightarrow> [CallRun]
                                    | Returns (Some e) \<Rightarrow> [CallRun, Println e, Sleep 5]
                                    | Panics \<Rightarrow> [CallRun]) [i..<i + k])
                @ [CallRun])"
    by (simp add: syncLoop_until_panic)
qed

theorem syncLoop_restarts_forever_witness:
  "syncLoop (\<lambda>j. Returns (Some ''node unreachable'')) 0 [] = None
   \<and> syncLoop (\<lambda>j. if j = 2 then Panics else Returns (Some ''node unreachable'')) 0 []
       = Some [CallRun, Println ''node unreachable'', Sleep 5,
               CallRun, Println ''node unreachable'', Sleep 5, CallRun]"
proof -
  have "[0..<2] = [0, Suc 0]"
    by (simp add: upt_rec)
  then show ?thesis
    using
      syncLoop_restarts_forever
        [where run = "\<lambda>j. Returns (Some ''node unreachable'')" and i = 0 and out = "[]"]
      syncLoop_restarts_forever
        [where run = "\<lambda>j. if j = 2 then Panics else Returns (Some ''node unreachable'')"
           and i = 0 and out = "[]" and k = 2]
    by simp
qed

end
